theory Spec2Isabelle
  imports Main "HOL-Library.AList"
begin

section \<open>Python values\<close>

text \<open>
  A Python \<open>str\<close> is a sequence of Unicode code points, and \<open>len\<close> counts code points:
  the feed names, the stop words and the vocabulary of the repository are partly Hangul, so
  a string is modelled as the list of its code points. \<open>ascii\<close> writes an ASCII literal
  and \<open>codepoints\<close> a literal with Hangul in it.
\<close>

type_synonym pystr = "nat list"

definition ascii :: "string \<Rightarrow> pystr" where
  "ascii s = map of_char s"

definition codepoints :: "nat list \<Rightarrow> pystr" where
  "codepoints cs = cs"

text \<open>
  The characters that \<open>str.strip()\<close> removes when it is called without an argument:
  those for which \<open>str.isspace\<close> holds.
\<close>

definition is_space :: "nat \<Rightarrow> bool" where
  "is_space c \<longleftrightarrow>
     (0x09 \<le> c \<and> c \<le> 0x0D) \<or> (0x1C \<le> c \<and> c \<le> 0x20) \<or> c = 0x85 \<or> c = 0xA0 \<or>
     c = 0x1680 \<or> (0x2000 \<le> c \<and> c \<le> 0x200A) \<or> c = 0x2028 \<or> c = 0x2029 \<or>
     c = 0x202F \<or> c = 0x205F \<or> c = 0x3000"

definition strip :: "pystr \<Rightarrow> pystr" where
  "strip s = rev (dropWhile is_space (rev (dropWhile is_space s)))"

text \<open>
  The exceptions the code catches, by the call that raises them: the feed parser, the date
  parser, the persistence layer and the remote keyword service.
\<close>

datatype error = FeedError | DateError | PersistenceError | KeywordServiceError

section \<open>Timestamps\<close>

text \<open>
  A \<open>datetime\<close> value with an optional offset from UTC in seconds, and its \<open>isoformat()\<close>:
  \<open>YYYY-MM-DDTHH:MM:SS\<close>, then \<open>.ffffff\<close> when the microsecond is not zero, then
  \<open>+HH:MM\<close> (and \<open>:SS\<close> when the offset has seconds) for an aware value. The fields of
  a Python datetime are always in range (\<open>valid_datetime\<close>); on such a value the fixed-width
  digits below are the digits Python prints.
\<close>

record datetime =
  year :: nat
  month :: nat
  day :: nat
  hour :: nat
  minute :: nat
  second :: nat
  microsecond :: nat
  utcoffset :: "int option"

definition is_leap :: "nat \<Rightarrow> bool" where
  "is_leap y \<longleftrightarrow> y mod 4 = 0 \<and> (y mod 100 \<noteq> 0 \<or> y mod 400 = 0)"

definition days_in_month :: "nat \<Rightarrow> nat \<Rightarrow> nat" where
  "days_in_month y m =
     (if m = 2 then (if is_leap y then 29 else 28)
      else if m = 4 \<or> m = 6 \<or> m = 9 \<or> m = 11 then 30 else 31)"

definition valid_date :: "nat \<Rightarrow> nat \<Rightarrow> nat \<Rightarrow> bool" where
  "valid_date y m d \<longleftrightarrow>
     1 \<le> y \<and> y \<le> 9999 \<and> 1 \<le> m \<and> m \<le> 12 \<and> 1 \<le> d \<and> d \<le> days_in_month y m"

definition valid_offset :: "int option \<Rightarrow> bool" where
  "valid_offset off = (case off of None \<Rightarrow> True | Some z \<Rightarrow> - 86400 < z \<and> z < 86400)"

definition valid_datetime :: "datetime \<Rightarrow> bool" where
  "valid_datetime d \<longleftrightarrow>
     valid_date (year d) (month d) (day d) \<and> hour d < 24 \<and> minute d < 60 \<and> second d < 60 \<and>
     microsecond d < 1000000 \<and> valid_offset (utcoffset d)"

definition digit :: "nat \<Rightarrow> nat" where
  "digit n = 48 + n mod 10"

definition pad2 :: "nat \<Rightarrow> pystr" where
  "pad2 n = [digit (n div 10), digit n]"

definition pad4 :: "nat \<Rightarrow> pystr" where
  "pad4 n = [digit (n div 1000), digit (n div 100), digit (n div 10), digit n]"

definition pad6 :: "nat \<Rightarrow> pystr" where
  "pad6 n = [digit (n div 100000), digit (n div 10000), digit (n div 1000),
             digit (n div 100), digit (n div 10), digit n]"

definition format_offset :: "int \<Rightarrow> pystr" where
  "format_offset z =
     (let a = nat \<bar>z\<bar> in
      (if z < 0 then 45 else 43) # pad2 (a div 3600) @ 58 # pad2 (a mod 3600 div 60) @
      (if a mod 60 = 0 then [] else 58 # pad2 (a mod 60)))"

definition isoformat :: "datetime \<Rightarrow> pystr" where
  "isoformat d =
     pad4 (year d) @ 45 # pad2 (month d) @ 45 # pad2 (day d) @ 84 #
     pad2 (hour d) @ 58 # pad2 (minute d) @ 58 # pad2 (second d) @
     (if microsecond d = 0 then [] else 46 # pad6 (microsecond d)) @
     (case utcoffset d of None \<Rightarrow> [] | Some z \<Rightarrow> format_offset z)"

section \<open>main.py: the collector\<close>

subsection \<open>Data\<close>

text \<open>
  A feed configuration is a dict read with \<open>.get\<close>; an entry of a parsed feed is read with
  \<open>getattr(entry, name, default)\<close>: a field may be missing. An article is the dict that
  \<open>collect_from_feed\<close> builds, with exactly these six keys (\<open>keywords_json\<close> is the key
  \<open>keywords\<close>, always the string \<open>[]\<close>).
\<close>

record feed_config =
  feed_url :: "pystr option"
  source_name :: "pystr option"

record raw_entry =
  entry_title :: "pystr option"
  entry_link :: "pystr option"
  entry_published :: "pystr option"
  entry_summary :: "pystr option"

record article =
  title :: pystr
  link :: pystr
  published :: pystr
  source :: pystr
  summary :: pystr
  keywords_json :: pystr

text \<open>
  What one fetch task sees of the outside: \<open>feedparser.parse(feed_url)\<close> raises or gives
  the entries of the feed (an empty or falsy feed has none), \<open>dateutil.parser.parse\<close>
  (with its import) raises or gives a datetime, and \<open>now k\<close> is the \<open>k\<close>-th reading of
  \<open>datetime.now()\<close> that the task makes.
\<close>

record world =
  feedparser_parse :: "pystr option \<Rightarrow> error + raw_entry list"
  dateutil_parse :: "pystr \<Rightarrow> error + datetime"
  now :: "nat \<Rightarrow> datetime"

subsection \<open>collect_from_feed\<close>

text \<open>
  The body of the loop over \<open>feed.entries[:15]\<close>. An entry whose stripped title or link is
  empty is skipped before the clock is read. Otherwise the default of \<open>getattr\<close> for
  \<open>published\<close> is evaluated (one reading of the clock, used only when the field is
  missing), and the handler of the bare \<open>except\<close> reads the clock once more.
  \<open>t\<close> counts the readings made so far.
\<close>

fun collect_entries :: "world \<Rightarrow> pystr \<Rightarrow> nat \<Rightarrow> raw_entry list \<Rightarrow> article list" where
  "collect_entries w src t [] = []"
| "collect_entries w src t (e # es) =
     (let ttl = strip (case entry_title e of None \<Rightarrow> ascii ''No Title'' | Some s \<Rightarrow> s);
          lnk = strip (case entry_link e of None \<Rightarrow> [] | Some s \<Rightarrow> s)
      in if ttl = [] \<or> lnk = [] then collect_entries w src t es
         else
           (let published_str =
                  (case entry_published e of None \<Rightarrow> isoformat (now w t) | Some s \<Rightarrow> s);
                smry = (case entry_summary e of None \<Rightarrow> [] | Some s \<Rightarrow> s)
            in case dateutil_parse w published_str of
                 Inr d \<Rightarrow>
                   \<lparr>title = ttl, link = lnk, published = isoformat d, source = src,
                    summary = smry, keywords_json = ascii ''[]''\<rparr> # collect_entries w src (t + 1) es
               | Inl _ \<Rightarrow>
                   \<lparr>title = ttl, link = lnk, published = isoformat (now w (t + 1)), source = src,
                    summary = smry, keywords_json = ascii ''[]''\<rparr> # collect_entries w src (t + 2) es))"

text \<open>
  The \<open>try\<close> block of \<open>collect_from_feed\<close>, with what it raises as \<open>Inl\<close>, and the function
  itself, whose handler turns every exception into the empty list.
\<close>

definition collect_from_feed_try :: "world \<Rightarrow> feed_config \<Rightarrow> error + article list" where
  "collect_from_feed_try w feed_cfg =
     (let src = (case source_name feed_cfg of None \<Rightarrow> ascii ''Unknown'' | Some s \<Rightarrow> s)
      in case feedparser_parse w (feed_url feed_cfg) of
           Inl e \<Rightarrow> Inl e
         | Inr entries \<Rightarrow>
             if entries = [] then Inr []
             else Inr (collect_entries w src 0 (take 15 entries)))"

definition collect_from_feed :: "world \<Rightarrow> feed_config \<Rightarrow> article list" where
  "collect_from_feed w feed_cfg =
     (case collect_from_feed_try w feed_cfg of Inl e \<Rightarrow> [] | Inr articles \<Rightarrow> articles)"

subsection \<open>save_articles\<close>

text \<open>
  \<open>db.insert_article\<close> is a call into the persistence layer: from a state of the store it
  raises or returns a truth value, and leaves a new state. The loop counts a true result as
  inserted, and a false result or an exception as skipped; nothing increments \<open>updated\<close>.
\<close>

record save_stats =
  inserted :: nat
  updated :: nat
  skipped :: nat

type_synonym 'db insert_article = "'db \<Rightarrow> article \<Rightarrow> (error + bool) \<times> 'db"

fun save_loop :: "'db insert_article \<Rightarrow> 'db \<Rightarrow> article list \<Rightarrow> save_stats \<Rightarrow> save_stats \<times> 'db" where
  "save_loop ins db [] stats = (stats, db)"
| "save_loop ins db (a # as) stats =
     (case ins db a of
        (Inr True, db') \<Rightarrow> save_loop ins db' as (stats\<lparr>inserted := inserted stats + 1\<rparr>)
      | (Inr False, db') \<Rightarrow> save_loop ins db' as (stats\<lparr>skipped := skipped stats + 1\<rparr>)
      | (Inl e, db') \<Rightarrow> save_loop ins db' as (stats\<lparr>skipped := skipped stats + 1\<rparr>))"

definition save_articles :: "'db insert_article \<Rightarrow> 'db \<Rightarrow> article list \<Rightarrow> save_stats \<times> 'db" where
  "save_articles ins db articles =
     save_loop ins db articles \<lparr>inserted = 0, updated = 0, skipped = 0\<rparr>"

subsection \<open>collect_all_news\<close>

text \<open>
  \<open>{article['link']: article for article in all_articles}\<close>: a dict keeps its keys in the
  order of their first insertion, and a later value for a key replaces the earlier one in
  place. \<open>list(d.values())\<close> reads the values in that order.
\<close>

definition link_dict :: "article list \<Rightarrow> (pystr \<times> article) list" where
  "link_dict all_articles = foldl (\<lambda>d a. AList.update (link a) a d) [] all_articles"

definition unique_articles :: "article list \<Rightarrow> article list" where
  "unique_articles all_articles = map snd (link_dict all_articles)"

text \<open>
  The list \<open>FEEDS\<close> of \<open>collect_all_news\<close>; the first two names are
  \<open>IT\<close> followed by two Hangul syllables, and four syllables, \<open>_\<close> and two syllables.
\<close>

definition FEEDS :: "feed_config list" where
  "FEEDS =
    [\<lparr>feed_url = Some (ascii ''https://it.donga.com/feeds/rss/''),
      source_name = Some (codepoints [0x0049, 0x0054, 0xB3D9, 0xC544])\<rparr>,
     \<lparr>feed_url = Some (ascii ''https://rss.etnews.com/Section902.xml''),
      source_name = Some (codepoints [0xC804, 0xC790, 0xC2E0, 0xBB38, 0x005F, 0xC18D, 0xBCF4])\<rparr>,
     \<lparr>feed_url = Some (ascii ''https://www.bloter.net/feed''),
      source_name = Some (ascii ''Bloter'')\<rparr>,
     \<lparr>feed_url = Some (ascii ''https://byline.network/feed/''),
      source_name = Some (ascii ''Byline Network'')\<rparr>,
     \<lparr>feed_url = Some (ascii ''https://platum.kr/feed''),
      source_name = Some (ascii ''Platum'')\<rparr>,
     \<lparr>feed_url = Some (ascii ''https://techcrunch.com/feed/''),
      source_name = Some (ascii ''TechCrunch'')\<rparr>,
     \<lparr>feed_url = Some (ascii ''https://www.theverge.com/rss/index.xml''),
      source_name = Some (ascii ''The Verge'')\<rparr>]"

text \<open>
  The slice \<open>xs[:n]\<close>: a negative \<open>n\<close> counts from the end. Then
  \<open>FEEDS[:max_feeds] if max_feeds else FEEDS\<close>, where \<open>None\<close> and \<open>0\<close> are both falsy.
\<close>

definition slice_to :: "int \<Rightarrow> 'a list \<Rightarrow> 'a list" where
  "slice_to n xs = (if 0 \<le> n then take (nat n) xs else take (length xs - nat (- n)) xs)"

definition feeds_to_process :: "int option \<Rightarrow> feed_config list" where
  "feeds_to_process max_feeds =
     (case max_feeds of
        None \<Rightarrow> FEEDS
      | Some n \<Rightarrow> if n \<noteq> 0 then slice_to n FEEDS else FEEDS)"

text \<open>
  \<open>self.stats\<close> is a dict from key names to counts and lists of feed names. It is set to
  \<open>initial_stats\<close> when a run starts; the only later write is
  \<open>self.stats.update(save_stats)\<close>, which adds the three keys of \<open>save_articles\<close>.
\<close>

datatype stat_value = Count nat | Names "pystr list"

definition initial_stats :: "string \<rightharpoonup> stat_value" where
  "initial_stats =
     [''total_processed'' \<mapsto> Count 0, ''total_inserted'' \<mapsto> Count 0,
      ''total_updated'' \<mapsto> Count 0, ''total_skipped'' \<mapsto> Count 0,
      ''failed_feeds'' \<mapsto> Names [], ''successful_feeds'' \<mapsto> Names []]"

definition stats_dict :: "save_stats \<Rightarrow> string \<rightharpoonup> stat_value" where
  "stats_dict s =
     [''inserted'' \<mapsto> Count (inserted s), ''updated'' \<mapsto> Count (updated s),
      ''skipped'' \<mapsto> Count (skipped s)]"

text \<open>
  The value returned by \<open>collect_all_news\<close>, without its \<open>duration\<close> (a difference of two
  floating-point clock readings, on which nothing here depends).
\<close>

record summary =
  status :: string
  stats :: "string \<rightharpoonup> stat_value"

text \<open>
  One task per selected feed is submitted to the pool, each with its own view of the
  outside (\<open>worlds\<close>); every task is \<open>collect_from_feed\<close>, which returns a list and never
  raises, so \<open>future.result()\<close> gives that list. \<open>as_completed\<close> yields the tasks in the
  order in which they finish, which is some rearrangement of the submitted ones. The unique
  articles are saved only when there are any. \<open>collect_selected\<close> is the body of
  \<open>collect_all_news\<close> from the submission of the tasks on, for the feeds selected.
\<close>

definition collect_selected ::
  "(feed_config \<Rightarrow> world) \<Rightarrow> (feed_config list \<Rightarrow> feed_config list) \<Rightarrow>
   'db insert_article \<Rightarrow> 'db \<Rightarrow> feed_config list \<Rightarrow> summary \<times> 'db" where
  "collect_selected worlds as_completed ins db feeds =
     (let futures = as_completed feeds;
          all_articles = concat (map (\<lambda>f. collect_from_feed (worlds f) f) futures);
          uniq = unique_articles all_articles
      in if uniq \<noteq> [] then
           (case save_articles ins db uniq of
              (saved, db') \<Rightarrow>
                (\<lparr>status = ''success'', stats = initial_stats ++ stats_dict saved\<rparr>, db'))
         else (\<lparr>status = ''success'', stats = initial_stats\<rparr>, db))"

definition collect_all_news ::
  "(feed_config \<Rightarrow> world) \<Rightarrow> (feed_config list \<Rightarrow> feed_config list) \<Rightarrow>
   'db insert_article \<Rightarrow> 'db \<Rightarrow> int option \<Rightarrow> summary \<times> 'db" where
  "collect_all_news worlds as_completed ins db max_feeds =
     collect_selected worlds as_completed ins db (feeds_to_process max_feeds)"

text \<open>
  The endpoint \<open>collect_news_now\<close> reports \<open>stats.get('inserted', 0)\<close> of the summary that
  \<open>collect_all_news\<close> returned.
\<close>

definition reported_inserted :: "summary \<Rightarrow> stat_value" where
  "reported_inserted result = (case stats result ''inserted'' of None \<Rightarrow> Count 0 | Some v \<Rightarrow> v)"

section \<open>keyword_maker.py: the keyword extractor\<close>

text \<open>
  \<open>str.lower()\<close> is the full Unicode case mapping. It is a parameter \<open>lower\<close> of every
  definition that calls it, so that what is proved holds for the real mapping;
  \<open>ascii_lower\<close> is that mapping on strings of ASCII characters and Hangul syllables
  (which have no case), and is used to evaluate the definitions on such strings.
\<close>

definition ascii_lower :: "pystr \<Rightarrow> pystr" where
  "ascii_lower s = map (\<lambda>c. if 65 \<le> c \<and> c \<le> 90 then c + 32 else c) s"

text \<open>
  The literals of the list \<open>STOP_WORDS\<close>, in the order of the source, duplicates included.
  In line 33 of the source the literal for \<open>won't\<close> opens with a double quote and closes with
  a single one, which Python does not parse; the entries \<open>won't\<close>, \<open>would\<close> and
  \<open>wouldn't\<close> are taken as the line evidently means them. The second assignment lowers
  every word.
\<close>

definition STOP_WORDS_literals :: "pystr list" where
  "STOP_WORDS_literals =
    [
     codepoints [0xC774], codepoints [0xC788], codepoints [0xD558], codepoints [0xAC83],
     codepoints [0xB4E4], codepoints [0xADF8], codepoints [0xB418], codepoints [0xC218],
     codepoints [0xC774], codepoints [0xBCF4], codepoints [0xC54A], codepoints [0xC5C6],
     codepoints [0xB098], codepoints [0xC0AC, 0xB78C], codepoints [0xC8FC],
     codepoints [0xC544, 0xB2C8], codepoints [0xB4F1], codepoints [0xAC19],
     codepoints [0xC6B0, 0xB9AC], codepoints [0xB54C], codepoints [0xB144],
     codepoints [0xAC00], codepoints [0xD55C], codepoints [0xC9C0],
     codepoints [0xB300, 0xD558], codepoints [0xC624], codepoints [0xB9D0],
     codepoints [0xC77C], codepoints [0xADF8, 0xB807], codepoints [0xC704, 0xD558],
     codepoints [0xB54C, 0xBB38], codepoints [0xADF8, 0xAC83], codepoints [0xB450],
     codepoints [0xB9D0, 0xD558], codepoints [0xC54C], codepoints [0xADF8, 0xB7EC, 0xB098],
     codepoints [0xADF8, 0xB7F0, 0xB370], codepoints [0xADF8, 0xB798, 0xC11C],
     codepoints [0xADF8, 0xB9AC, 0xACE0], codepoints [0xB610], codepoints [0xB354],
     codepoints [0xAC1C], codepoints [0xC870], codepoints [0xC5B5], codepoints [0xC6D0],
     codepoints [0xB2EC, 0xB7EC], codepoints [0xB9CC], codepoints [0xBA85],
     codepoints [0xC704], codepoints [0xC6D4], codepoints [0xC77C],
     codepoints [0xC2DC, 0xAC04], codepoints [0xBD84], codepoints [0xCD08],
     codepoints [0xB274, 0xC2A4], codepoints [0xAE30, 0xC0AC], codepoints [0xC18D, 0xBCF4],
     codepoints [0xB2E8, 0xB3C5], codepoints [0xC885, 0xD569], codepoints [0xC0AC, 0xC9C4],
     codepoints [0xC601, 0xC0C1], codepoints [0xD5E4, 0xB7F4, 0xB4DC],
     codepoints [0xACBD, 0xC81C], codepoints [0xCF54, 0xB9AC, 0xC544],
     codepoints [0xC544, 0xC774, 0xB274, 0xC2A4, 0x0032, 0x0034],
     codepoints [0xC804, 0xC790, 0xC2E0, 0xBB38], codepoints [0xC9C0, 0xB514, 0xB137],
     codepoints [0xB514, 0xC9C0, 0xD138, 0xB370, 0xC77C, 0xB9AC],
     codepoints [0xBE14, 0xB85C, 0xD130], codepoints [0xC528, 0xB137], ascii ''it'',
     ascii ''a'', ascii ''about'', ascii ''above'', ascii ''after'', ascii ''again'',
     ascii ''against'', ascii ''all'', ascii ''am'', ascii ''an'', ascii ''and'',
     ascii ''any'', ascii ''are'', ascii ''aren'' @ 39 # ascii ''t'', ascii ''as'',
     ascii ''at'', ascii ''be'', ascii ''because'', ascii ''been'', ascii ''before'',
     ascii ''being'', ascii ''below'', ascii ''between'', ascii ''both'', ascii ''but'',
     ascii ''by'', ascii ''can'', ascii ''can'' @ 39 # ascii ''t'', ascii ''cannot'',
     ascii ''could'', ascii ''couldn'' @ 39 # ascii ''t'', ascii ''did'',
     ascii ''didn'' @ 39 # ascii ''t'', ascii ''do'', ascii ''does'',
     ascii ''doesn'' @ 39 # ascii ''t'', ascii ''doing'', ascii ''don'' @ 39 # ascii ''t'',
     ascii ''down'', ascii ''during'', ascii ''each'', ascii ''few'', ascii ''for'',
     ascii ''from'', ascii ''further'', ascii ''had'', ascii ''hadn'' @ 39 # ascii ''t'',
     ascii ''has'', ascii ''hasn'' @ 39 # ascii ''t'', ascii ''have'',
     ascii ''haven'' @ 39 # ascii ''t'', ascii ''having'', ascii ''he'',
     ascii ''he'' @ 39 # ascii ''d'', ascii ''he'' @ 39 # ascii ''ll'',
     ascii ''he'' @ 39 # ascii ''s'', ascii ''her'', ascii ''here'',
     ascii ''here'' @ 39 # ascii ''s'', ascii ''hers'', ascii ''herself'', ascii ''him'',
     ascii ''himself'', ascii ''his'', ascii ''how'', ascii ''how'' @ 39 # ascii ''s'',
     ascii ''i'', ascii ''i'' @ 39 # ascii ''d'', ascii ''i'' @ 39 # ascii ''ll'',
     ascii ''i'' @ 39 # ascii ''m'', ascii ''i'' @ 39 # ascii ''ve'', ascii ''if'',
     ascii ''in'', ascii ''into'', ascii ''is'', ascii ''isn'' @ 39 # ascii ''t'',
     ascii ''it'', ascii ''it'' @ 39 # ascii ''s'', ascii ''its'', ascii ''itself'',
     ascii ''let'' @ 39 # ascii ''s'', ascii ''me'', ascii ''more'', ascii ''most'',
     ascii ''mustn'' @ 39 # ascii ''t'', ascii ''my'', ascii ''myself'', ascii ''no'',
     ascii ''nor'', ascii ''not'', ascii ''of'', ascii ''off'', ascii ''on'',
     ascii ''once'', ascii ''only'', ascii ''or'', ascii ''other'', ascii ''ought'',
     ascii ''our'', ascii ''ours'', ascii ''ourselves'', ascii ''out'', ascii ''over'',
     ascii ''own'', ascii ''same'', ascii ''shan'' @ 39 # ascii ''t'', ascii ''she'',
     ascii ''she'' @ 39 # ascii ''d'', ascii ''she'' @ 39 # ascii ''ll'',
     ascii ''she'' @ 39 # ascii ''s'', ascii ''should'',
     ascii ''shouldn'' @ 39 # ascii ''t'', ascii ''so'', ascii ''some'', ascii ''such'',
     ascii ''than'', ascii ''that'', ascii ''that'' @ 39 # ascii ''s'', ascii ''the'',
     ascii ''their'', ascii ''theirs'', ascii ''them'', ascii ''themselves'',
     ascii ''then'', ascii ''there'', ascii ''there'' @ 39 # ascii ''s'', ascii ''these'',
     ascii ''they'', ascii ''they'' @ 39 # ascii ''d'', ascii ''they'' @ 39 # ascii ''ll'',
     ascii ''they'' @ 39 # ascii ''re'', ascii ''they'' @ 39 # ascii ''ve'', ascii ''this'',
     ascii ''those'', ascii ''through'', ascii ''to'', ascii ''too'', ascii ''under'',
     ascii ''until'', ascii ''up'', ascii ''very'', ascii ''was'',
     ascii ''wasn'' @ 39 # ascii ''t'', ascii ''we'', ascii ''we'' @ 39 # ascii ''d'',
     ascii ''we'' @ 39 # ascii ''ll'', ascii ''we'' @ 39 # ascii ''re'',
     ascii ''we'' @ 39 # ascii ''ve'', ascii ''were'', ascii ''weren'' @ 39 # ascii ''t'',
     ascii ''what'', ascii ''what'' @ 39 # ascii ''s'', ascii ''when'',
     ascii ''when'' @ 39 # ascii ''s'', ascii ''where'', ascii ''where'' @ 39 # ascii ''s'',
     ascii ''which'', ascii ''while'', ascii ''who'', ascii ''who'' @ 39 # ascii ''s'',
     ascii ''whom'', ascii ''why'', ascii ''why'' @ 39 # ascii ''s'', ascii ''with'',
     ascii ''won'' @ 39 # ascii ''t'', ascii ''would'', ascii ''wouldn'' @ 39 # ascii ''t'',
     ascii ''you'', ascii ''you'' @ 39 # ascii ''d'', ascii ''you'' @ 39 # ascii ''ll'',
     ascii ''you'' @ 39 # ascii ''re'', ascii ''you'' @ 39 # ascii ''ve'', ascii ''your'',
     ascii ''yours'', ascii ''yourself'', ascii ''yourselves'', ascii ''news'',
     ascii ''article'', ascii ''report'', ascii ''inc'', ascii ''ltd'', ascii ''co'',
     ascii ''llc'']"

definition STOP_WORDS :: "(pystr \<Rightarrow> pystr) \<Rightarrow> pystr list" where
  "STOP_WORDS lower = map lower STOP_WORDS_literals"

text \<open>The vocabulary \<open>tech_terms\<close> of \<open>extract_simple_keywords\<close>, in its declared order.\<close>

definition tech_terms :: "pystr list" where
  "tech_terms =
    [
     ascii ''AI'', codepoints [0xC778, 0xACF5, 0xC9C0, 0xB2A5],
     codepoints [0xBA38, 0xC2E0, 0xB7EC, 0xB2DD], codepoints [0xB525, 0xB7EC, 0xB2DD],
     codepoints [0xBC18, 0xB3C4, 0xCCB4], ascii ''5G'', ascii ''6G'', ascii ''IoT'',
     codepoints [0xD074, 0xB77C, 0xC6B0, 0xB4DC],
     codepoints [0xBE45, 0xB370, 0xC774, 0xD130],
     codepoints [0xBE14, 0xB85D, 0xCCB4, 0xC778],
     codepoints [0xBA54, 0xD0C0, 0xBC84, 0xC2A4], ascii ''VR'', ascii ''AR'',
     codepoints [0xB85C, 0xBD07], codepoints [0xC790, 0xB3D9, 0xD654],
     codepoints [0xC2A4, 0xB9C8, 0xD2B8, 0xD329, 0xD1A0, 0xB9AC],
     codepoints [0xB514, 0xC9C0, 0xD138, 0xC804, 0xD658], ascii ''DX'',
     codepoints [0xD540, 0xD14C, 0xD06C], codepoints [0xC804, 0xAE30, 0xCC28],
     codepoints [0xC790, 0xC728, 0xC8FC, 0xD589], codepoints [0xBC30, 0xD130, 0xB9AC],
     codepoints [0xD0DC, 0xC591, 0xAD11], codepoints [0xD48D, 0xB825],
     codepoints [0xC218, 0xC18C], codepoints [0xC591, 0xC790, 0xCEF4, 0xD4E8, 0xD305],
     codepoints [0xC0AC, 0xC774, 0xBC84, 0xBCF4, 0xC548], codepoints [0xD574, 0xD0B9],
     codepoints [0xB79C, 0xC12C, 0xC6E8, 0xC5B4],
     codepoints [0xAC1C, 0xC778, 0xC815, 0xBCF4, 0xBCF4, 0xD638],
     codepoints [0xC2A4, 0xD0C0, 0xD2B8, 0xC5C5], codepoints [0xC720, 0xB2C8, 0xCF58],
     codepoints [0xBCA4, 0xCC98, 0xCE90, 0xD53C, 0xD0C8], ascii ''IPO'', ascii ''M&A'']"

text \<open>\<open>sub in s\<close> for strings: \<open>sub\<close> occurs in \<open>s\<close> as a contiguous piece.\<close>

fun contains :: "pystr \<Rightarrow> pystr \<Rightarrow> bool" where
  "contains sub [] = (sub = [])"
| "contains sub (c # cs) = (take (length sub) (c # cs) = sub \<or> contains sub cs)"

text \<open>The filter both extractors apply: not a stop word once lowered, and longer than one.\<close>

definition keep_keyword :: "(pystr \<Rightarrow> pystr) \<Rightarrow> pystr \<Rightarrow> bool" where
  "keep_keyword lower k \<longleftrightarrow> lower k \<notin> set (STOP_WORDS lower) \<and> length k > 1"

definition extract_simple_keywords :: "(pystr \<Rightarrow> pystr) \<Rightarrow> pystr \<Rightarrow> pystr list" where
  "extract_simple_keywords lower text =
     (let text_lower = lower text;
          found = filter (\<lambda>tech_term. contains (lower tech_term) text_lower) tech_terms;
          filtered_keywords = filter (keep_keyword lower) found
      in take 8 filtered_keywords)"

text \<open>\<open>s.split(',')\<close>: the pieces between the separators, of which there is always one.\<close>

fun split_on :: "nat \<Rightarrow> pystr \<Rightarrow> pystr list" where
  "split_on sep [] = [] # []"
| "split_on sep (c # cs) =
     (case split_on sep cs of
        [] \<Rightarrow> (if c = sep then [] # [] # [] else (c # []) # [])
      | p # ps \<Rightarrow> (if c = sep then [] # p # ps else (c # p) # ps))"

text \<open>
  The \<open>try\<close> block of \<open>extract_keywords\<close>. The request to the service is fixed but for the
  key and \<open>text[:1000]\<close>; \<open>chat\<close> stands for everything from the construction of the client
  to the read of \<open>response.choices[0].message.content\<close>, and raises or gives that string.
\<close>

definition extract_keywords_try ::
  "(pystr \<Rightarrow> pystr) \<Rightarrow> (pystr \<Rightarrow> pystr \<Rightarrow> error + pystr) \<Rightarrow> pystr \<Rightarrow> pystr \<Rightarrow> error + pystr list" where
  "extract_keywords_try lower chat key text =
     (case chat key (take 1000 text) of
        Inl e \<Rightarrow> Inl e
      | Inr content \<Rightarrow>
          (let keywords_text = strip content;
               raw_keywords = filter (\<lambda>k. k \<noteq> []) (map strip (split_on 44 keywords_text));
               filtered_keywords = filter (keep_keyword lower) raw_keywords
           in Inr (take 8 filtered_keywords)))"

text \<open>
  \<open>OPENAI_API_KEY\<close> is \<open>os.getenv(...)\<close>: \<open>None\<close> when the variable is unset. The guard
  returns the empty list for an empty text and for a key that is unset or empty; the
  handler of the \<open>try\<close> block calls \<open>extract_simple_keywords\<close>.
\<close>

definition extract_keywords ::
  "(pystr \<Rightarrow> pystr) \<Rightarrow> pystr option \<Rightarrow> (pystr \<Rightarrow> pystr \<Rightarrow> error + pystr) \<Rightarrow> pystr \<Rightarrow> pystr list" where
  "extract_keywords lower OPENAI_API_KEY chat text =
     (case OPENAI_API_KEY of
        None \<Rightarrow> []
      | Some key \<Rightarrow>
          if text = [] \<or> key = [] then []
          else (case extract_keywords_try lower chat key text of
                  Inl e \<Rightarrow> extract_simple_keywords lower text
                | Inr ks \<Rightarrow> ks))"

section \<open>Concrete inputs\<close>

text \<open>
  A small article, and a persistence layer over the list of stored links that raises for an
  article without a source, refuses a link it already holds and stores any other. They are
  used to run the definitions on concrete inputs.
\<close>

definition sample_article :: "string \<Rightarrow> string \<Rightarrow> article" where
  "sample_article l src =
     \<lparr>title = ascii ''T'', link = ascii l, published = [], source = ascii src,
      summary = [], keywords_json = ascii ''[]''\<rparr>"

definition sample_insert :: "pystr list insert_article" where
  "sample_insert db a =
     (if source a = [] then (Inl PersistenceError, db)
      else if link a \<in> set db then (Inr False, db)
      else (Inr True, link a # db))"

text \<open>
  What the loop of \<open>save_articles\<close> asks of the persistence layer: the outcome of each call
  of \<open>db.insert_article\<close>, made in the order of the list and each from the state the call
  before it left, and the state of the store after the last call.
\<close>

fun outcomes :: "'db insert_article \<Rightarrow> 'db \<Rightarrow> article list \<Rightarrow> (error + bool) list" where
  "outcomes ins db [] = []"
| "outcomes ins db (a # as) = (case ins db a of (r, db') \<Rightarrow> r # outcomes ins db' as)"

fun store_after :: "'db insert_article \<Rightarrow> 'db \<Rightarrow> article list \<Rightarrow> 'db" where
  "store_after ins db [] = db"
| "store_after ins db (a # as) = store_after ins (snd (ins db a)) as"

text \<open>
  A reading of the clock, a feed entry with the given title and link and nothing else, a
  configured feed, and the world of a fetch task whose parser returns the given entries,
  whose date parser raises and whose clock stands still.
\<close>

definition sample_now :: datetime where
  "sample_now = \<lparr>year = 2026, month = 11, day = 4, hour = 1, minute = 2, second = 3,
                  microsecond = 0, utcoffset = None\<rparr>"

definition sample_entry :: "string \<Rightarrow> string \<Rightarrow> raw_entry" where
  "sample_entry t l =
     \<lparr>entry_title = Some (ascii t), entry_link = Some (ascii l), entry_published = None,
      entry_summary = None\<rparr>"

definition feed_of :: "raw_entry list \<Rightarrow> world" where
  "feed_of es = \<lparr>feedparser_parse = (\<lambda>url. Inr es), dateutil_parse = (\<lambda>s. Inl DateError),
                 now = (\<lambda>k. sample_now)\<rparr>"

definition sample_feed :: feed_config where
  "sample_feed = \<lparr>feed_url = Some (ascii ''http://f''), source_name = Some (ascii ''S'')\<rparr>"

text \<open>
  The names of a list of configured feeds, the world of a fetch task whose parser raises,
  a run in which every task sees that world, and a run in which every feed has the same
  single entry.
\<close>

definition source_names :: "feed_config list \<Rightarrow> pystr list" where
  "source_names fs =
     map (\<lambda>f. case source_name f of None \<Rightarrow> ascii ''Unknown'' | Some s \<Rightarrow> s) fs"

definition failing_world :: world where
  "failing_world = \<lparr>feedparser_parse = (\<lambda>url. Inl FeedError),
                     dateutil_parse = (\<lambda>s. Inl DateError), now = (\<lambda>k. sample_now)\<rparr>"

definition all_failing :: "feed_config \<Rightarrow> world" where
  "all_failing f = failing_world"


text \<open>
  The title and the link that the loop of \<open>collect_from_feed\<close> reads from an entry
  (\<open>getattr\<close> with its default, then \<open>strip\<close>), and its test \<open>if not title or not link\<close>,
  which decides whether the entry yields an article.
\<close>

definition entry_title_text :: "raw_entry \<Rightarrow> pystr" where
  "entry_title_text e = strip (case entry_title e of None \<Rightarrow> ascii ''No Title'' | Some s \<Rightarrow> s)"

definition entry_link_text :: "raw_entry \<Rightarrow> pystr" where
  "entry_link_text e = strip (case entry_link e of None \<Rightarrow> [] | Some s \<Rightarrow> s)"

definition emitted :: "raw_entry \<Rightarrow> bool" where
  "emitted e \<longleftrightarrow> \<not> (entry_title_text e = [] \<or> entry_link_text e = [])"

text \<open>An entry with a link and no title field, and one with a title and no link field.\<close>

definition untitled_entry :: raw_entry where
  "untitled_entry =
     \<lparr>entry_title = None, entry_link = Some (ascii ''http://x''), entry_published = None,
      entry_summary = None\<rparr>"

definition unlinked_entry :: raw_entry where
  "unlinked_entry =
     \<lparr>entry_title = Some (ascii ''T''), entry_link = None, entry_published = None,
      entry_summary = None\<rparr>"

text \<open>
  A remote service that raises, and one that answers with a fixed line of keywords, among
  them stop words, single characters and empty pieces.
\<close>

definition failing_chat :: "pystr \<Rightarrow> pystr \<Rightarrow> error + pystr" where
  "failing_chat key prompt = Inl KeywordServiceError"

definition sample_chat :: "pystr \<Rightarrow> pystr \<Rightarrow> error + pystr" where
  "sample_chat key prompt =
     Inr (ascii '' AI, the, x, Cloud ,, IT, News, a1, b2, c3, d4, e5, f6, g7 '')"

section \<open>Properties of save_articles\<close>

lemma save_loop_tally:
  "save_loop ins db as \<lparr>inserted = i, updated = u, skipped = s\<rparr>
     = (\<lparr>inserted = i + length (filter (\<lambda>r. r = Inr True) (outcomes ins db as)), updated = u,
         skipped = s + length (filter (\<lambda>r. r \<noteq> Inr True) (outcomes ins db as))\<rparr>,
        store_after ins db as)"
proof (induction as arbitrary: db i s)
  case Nil
  show ?case by simp
next
  case (Cons a as)
  obtain r db' where r: "ins db a = (r, db')" by (cases "ins db a")
  show ?case
  proof (cases r)
    case (Inl e)
    with r Cons.IH [of db' i "s + 1"] show ?thesis by simp
  next
    case (Inr b)
    show ?thesis
    proof (cases b)
      case True
      with r Inr Cons.IH [of db' "i + 1" s] show ?thesis by simp
    next
      case False
      with r Inr Cons.IH [of db' i "s + 1"] show ?thesis by simp
    qed
  qed
qed

lemma save_articles_tally:
  "save_articles ins db as
     = (\<lparr>inserted = length (filter (\<lambda>r. r = Inr True) (outcomes ins db as)), updated = 0,
         skipped = length (filter (\<lambda>r. r \<noteq> Inr True) (outcomes ins db as))\<rparr>,
        store_after ins db as)"
  by (simp add: save_articles_def save_loop_tally)

lemma length_outcomes: "length (outcomes ins db as) = length as"
  by (induction as arbitrary: db) (auto split: prod.splits)

lemma outcomes_append:
  "outcomes ins db (xs @ ys) = outcomes ins db xs @ outcomes ins (store_after ins db xs) ys"
  by (induction xs arbitrary: db) (auto split: prod.splits)

lemma store_after_append:
  "store_after ins db (xs @ ys) = store_after ins (store_after ins db xs) ys"
  by (induction xs arbitrary: db) auto

text \<open>
  C9. Whatever the persistence call does, \<open>save_articles\<close> offers every article of the list
  to it, in order, each from the state of the store the call before left: the result is the
  tally of those outcomes (a true result counts as inserted, a false result or a raise as
  skipped, \<open>updated\<close> stays 0) with the store after the last call, so that the inserted
  and skipped counts add up to the number of articles. When the call raises for an article
  at any position, that article adds one skip, and the counts and the store are otherwise
  those of the articles before it followed by those of the articles after it, processed
  from the state the raising call left.
\<close>

theorem save_articles_counts_every_article:
  "save_articles ins db articles
     = (\<lparr>inserted = length (filter (\<lambda>r. r = Inr True) (outcomes ins db articles)),
         updated = 0,
         skipped = length (filter (\<lambda>r. r \<noteq> Inr True) (outcomes ins db articles))\<rparr>,
        store_after ins db articles)
   \<and> length (outcomes ins db articles) = length articles
   \<and> inserted (fst (save_articles ins db articles)) + skipped (fst (save_articles ins db articles))
       = length articles
   \<and> (ins (store_after ins db pre) a = (Inl e, db') \<longrightarrow>
        outcomes ins db (pre @ a # post) = outcomes ins db pre @ Inl e # outcomes ins db' post
        \<and> save_articles ins db (pre @ a # post)
            = (\<lparr>inserted = inserted (fst (save_articles ins db pre))
                            + inserted (fst (save_articles ins db' post)),
                updated = 0,
                skipped = skipped (fst (save_articles ins db pre)) + 1
                            + skipped (fst (save_articles ins db' post))\<rparr>,
               snd (save_articles ins db' post)))"
proof (intro conjI impI)
  show "save_articles ins db articles
     = (\<lparr>inserted = length (filter (\<lambda>r. r = Inr True) (outcomes ins db articles)),
         updated = 0,
         skipped = length (filter (\<lambda>r. r \<noteq> Inr True) (outcomes ins db articles))\<rparr>,
        store_after ins db articles)"
    by (rule save_articles_tally)
  show "length (outcomes ins db articles) = length articles"
    by (rule length_outcomes)
  have "length (filter (\<lambda>r. r = Inr True) (outcomes ins db articles))
          + length (filter (\<lambda>r. r \<noteq> Inr True) (outcomes ins db articles))
        = length (outcomes ins db articles)"
    using sum_length_filter_compl [of "\<lambda>r. r = Inr True" "outcomes ins db articles"] by simp
  then show "inserted (fst (save_articles ins db articles))
          + skipped (fst (save_articles ins db articles)) = length articles"
    by (simp add: save_articles_tally length_outcomes)
next
  assume h: "ins (store_after ins db pre) a = (Inl e, db')"
  then show o: "outcomes ins db (pre @ a # post)
                  = outcomes ins db pre @ Inl e # outcomes ins db' post"
    by (simp add: outcomes_append)
  from h have "store_after ins db (pre @ a # post) = store_after ins db' post"
    by (simp add: store_after_append)
  then show "save_articles ins db (pre @ a # post)
            = (\<lparr>inserted = inserted (fst (save_articles ins db pre))
                            + inserted (fst (save_articles ins db' post)),
                updated = 0,
                skipped = skipped (fst (save_articles ins db pre)) + 1
                            + skipped (fst (save_articles ins db' post))\<rparr>,
               snd (save_articles ins db' post))"
    by (simp add: save_articles_tally o)
qed

theorem save_articles_counts_every_article_witness:
  "sample_insert (store_after sample_insert [] [sample_article ''v'' ''A''])
       (sample_article ''u'' []) = (Inl PersistenceError, [ascii ''v''])
   \<and> outcomes sample_insert []
        [sample_article ''v'' ''A'', sample_article ''u'' [], sample_article ''w'' ''B'']
       = [Inr True, Inl PersistenceError, Inr True]
   \<and> save_articles sample_insert []
        [sample_article ''v'' ''A'', sample_article ''u'' [], sample_article ''w'' ''B'']
       = (\<lparr>inserted = 2, updated = 0, skipped = 1\<rparr>, [ascii ''w'', ascii ''v''])"
  using save_articles_counts_every_article
    [of sample_insert "[]" "[]" "[sample_article ''v'' ''A'']"
        "sample_article ''u'' []" PersistenceError "[ascii ''v'']" "[sample_article ''w'' ''B'']"]
  by (simp add: save_articles_def sample_insert_def sample_article_def ascii_def)

section \<open>Properties of collect_from_feed\<close>

lemma collect_entries_length: "length (collect_entries w src t es) \<le> length es"
  by (induction es arbitrary: t) (auto simp: Let_def le_SucI split: sum.splits)

lemma collect_entries_world:
  "dateutil_parse w' = dateutil_parse w \<Longrightarrow> now w' = now w \<Longrightarrow>
   collect_entries w' src t es = collect_entries w src t es"
  by (induction es arbitrary: t) (auto simp: Let_def split: sum.splits option.splits)

text \<open>
  C7. Whatever the feed parser returns for a feed, and however many entries the feed has,
  \<open>collect_from_feed\<close> returns at most 15 articles, and no more than the feed has entries
  among its first 15. Only the first 15 entries are read: two runs whose parsers return
  entry lists with the same first 15 entries, with the same date parser and clock, return
  the same articles.
\<close>

theorem collect_from_feed_at_most_15:
  "length (collect_from_feed w feed_cfg) \<le> 15
   \<and> (feedparser_parse w (feed_url feed_cfg) = Inr entries \<longrightarrow>
        length (collect_from_feed w feed_cfg) \<le> length (take 15 entries))
   \<and> (feedparser_parse w (feed_url feed_cfg) = Inr entries
        \<and> feedparser_parse w' (feed_url feed_cfg) = Inr entries'
        \<and> take 15 entries' = take 15 entries
        \<and> dateutil_parse w' = dateutil_parse w \<and> now w' = now w
      \<longrightarrow> collect_from_feed w' feed_cfg = collect_from_feed w feed_cfg)"
proof (intro conjI impI)
  have l: "length (collect_entries w src 0 (take 15 es)) \<le> length (take 15 es)" for src es
    by (rule collect_entries_length)
  have "length (collect_entries w src 0 (take 15 es)) \<le> 15" for src es
    using l [of src es] by simp
  then show "length (collect_from_feed w feed_cfg) \<le> 15"
    by (simp add: collect_from_feed_def collect_from_feed_try_def Let_def split: sum.splits)
  assume "feedparser_parse w (feed_url feed_cfg) = Inr entries"
  then show "length (collect_from_feed w feed_cfg) \<le> length (take 15 entries)"
    using l by (simp add: collect_from_feed_def collect_from_feed_try_def Let_def)
next
  assume h: "feedparser_parse w (feed_url feed_cfg) = Inr entries
        \<and> feedparser_parse w' (feed_url feed_cfg) = Inr entries'
        \<and> take 15 entries' = take 15 entries
        \<and> dateutil_parse w' = dateutil_parse w \<and> now w' = now w"
  from h have p: "feedparser_parse w (feed_url feed_cfg) = Inr entries" by blast
  from h have p': "feedparser_parse w' (feed_url feed_cfg) = Inr entries'" by blast
  from h have tk: "take 15 entries' = take 15 entries" by blast
  from h have dp: "dateutil_parse w' = dateutil_parse w" by blast
  from h have nw: "now w' = now w" by blast
  have "(take 15 entries' = []) = (entries' = [])" by simp
  moreover have "(take 15 entries = []) = (entries = [])" by simp
  ultimately have e: "(entries' = []) = (entries = [])" using tk by (simp only:)
  have c: "collect_entries w' src 0 (take 15 entries') = collect_entries w src 0 (take 15 entries)"
    for src unfolding tk by (rule collect_entries_world [OF dp nw])
  show "collect_from_feed w' feed_cfg = collect_from_feed w feed_cfg"
    unfolding collect_from_feed_def collect_from_feed_try_def Let_def p p'
    by (simp only: e c sum.case)
qed

lemma feed_of_simps:
  "feedparser_parse (feed_of es) u = Inr es"
  "dateutil_parse (feed_of es) = (\<lambda>s. Inl DateError)"
  "now (feed_of es) = (\<lambda>k. sample_now)"
  by (simp_all add: feed_of_def)

lemma strip_Nil: "strip [] = []"
  by (simp add: strip_def)

lemma collect_entries_blank:
  "collect_entries w src t (replicate n (sample_entry [] l) @ es) = collect_entries w src t es"
  by (induction n) (simp_all add: sample_entry_def ascii_def strip_Nil)

lemma sample_collect_17:
  "collect_from_feed
     (feed_of (replicate 14 (sample_entry [] ''a'')
               @ [sample_entry ''T'' ''b'', sample_entry ''T'' ''c'', sample_entry ''T'' ''d'']))
     sample_feed
   = [\<lparr>title = ascii ''T'', link = ascii ''b'', published = isoformat sample_now,
       source = ascii ''S'', summary = [], keywords_json = ascii ''[]''\<rparr>]"
  by (simp add: collect_from_feed_def collect_from_feed_try_def feed_of_simps sample_feed_def
      collect_entries_blank)
    (simp add: sample_entry_def strip_def ascii_def is_space_def feed_of_simps)

theorem collect_from_feed_at_most_15_witness:
  "feedparser_parse
      (feed_of (replicate 14 (sample_entry [] ''a'')
                @ [sample_entry ''T'' ''b'', sample_entry ''T'' ''c'', sample_entry ''T'' ''d'']))
      (feed_url sample_feed)
     = Inr (replicate 14 (sample_entry [] ''a'')
            @ [sample_entry ''T'' ''b'', sample_entry ''T'' ''c'', sample_entry ''T'' ''d''])
   \<and> collect_from_feed
        (feed_of (replicate 14 (sample_entry [] ''a'')
                  @ [sample_entry ''T'' ''b'', sample_entry ''T'' ''c'', sample_entry ''T'' ''d'']))
        sample_feed
       = [\<lparr>title = ascii ''T'', link = ascii ''b'', published = isoformat sample_now,
           source = ascii ''S'', summary = [], keywords_json = ascii ''[]''\<rparr>]
   \<and> collect_from_feed
        (feed_of (replicate 14 (sample_entry [] ''a'') @ [sample_entry ''T'' ''b'']))
        sample_feed
       = collect_from_feed
           (feed_of (replicate 14 (sample_entry [] ''a'')
                     @ [sample_entry ''T'' ''b'', sample_entry ''T'' ''c'', sample_entry ''T'' ''d'']))
           sample_feed"
proof -
  let ?es = "replicate 14 (sample_entry [] ''a'')
             @ [sample_entry ''T'' ''b'', sample_entry ''T'' ''c'', sample_entry ''T'' ''d'']"
  let ?es' = "replicate 14 (sample_entry [] ''a'') @ [sample_entry ''T'' ''b'']"
  have a: "feedparser_parse (feed_of ?es) (feed_url sample_feed) = Inr ?es"
    and b: "feedparser_parse (feed_of ?es') (feed_url sample_feed) = Inr ?es'"
    and c: "dateutil_parse (feed_of ?es') = dateutil_parse (feed_of ?es)"
    and d: "now (feed_of ?es') = now (feed_of ?es)"
    by (simp_all only: feed_of_simps)
  have t: "take 15 ?es' = take 15 ?es" by simp
  have e: "collect_from_feed (feed_of ?es') sample_feed = collect_from_feed (feed_of ?es) sample_feed"
    using collect_from_feed_at_most_15 [of "feed_of ?es" sample_feed ?es "feed_of ?es'" ?es']
    by (simp only: a b c d t simp_thms)
  show ?thesis
    by (intro conjI a sample_collect_17 e)
qed

section \<open>Which entries collect_from_feed emits\<close>

lemma collect_entries_titles:
  "map (\<lambda>a. (title a, link a)) (collect_entries w src t es)
     = map (\<lambda>e. (entry_title_text e, entry_link_text e)) (filter emitted es)"
  by (induction es arbitrary: t)
    (simp_all add: Let_def emitted_def entry_title_text_def entry_link_text_def split: sum.splits)

lemma strip_No_Title: "strip (ascii ''No Title'') = ascii ''No Title''"
  by (simp add: strip_def ascii_def is_space_def)

text \<open>
  C3. The articles that \<open>collect_from_feed\<close> returns are, in order, those of the entries
  among the first 15 that pass the test of the loop, each with the stripped title and link
  of its entry. An entry does not pass when its title is present and empty after stripping,
  or when its link is missing or empty after stripping. An entry without a title field is
  read with the title \<open>No Title\<close>, and passes exactly when its stripped link is not empty.
\<close>

theorem collect_from_feed_excludes_blank_entries:
  "(feedparser_parse w (feed_url feed_cfg) = Inr entries \<longrightarrow>
      map (\<lambda>a. (title a, link a)) (collect_from_feed w feed_cfg)
        = map (\<lambda>e. (entry_title_text e, entry_link_text e)) (filter emitted (take 15 entries)))
   \<and> (entry_title e = Some s \<and> strip s = [] \<longrightarrow> \<not> emitted e)
   \<and> (entry_link e = None \<longrightarrow> \<not> emitted e)
   \<and> (entry_link e = Some s \<and> strip s = [] \<longrightarrow> \<not> emitted e)
   \<and> (entry_title e = None \<longrightarrow>
        entry_title_text e = ascii ''No Title'' \<and> emitted e = (entry_link_text e \<noteq> []))"
proof (intro conjI impI)
  assume "feedparser_parse w (feed_url feed_cfg) = Inr entries"
  then show "map (\<lambda>a. (title a, link a)) (collect_from_feed w feed_cfg)
        = map (\<lambda>e. (entry_title_text e, entry_link_text e)) (filter emitted (take 15 entries))"
    by (simp add: collect_from_feed_def collect_from_feed_try_def collect_entries_titles)
next
  assume "entry_title e = Some s \<and> strip s = []"
  then show "\<not> emitted e" by (simp add: emitted_def entry_title_text_def)
next
  assume "entry_link e = None"
  then show "\<not> emitted e" by (simp add: emitted_def entry_link_text_def strip_def)
next
  assume "entry_link e = Some s \<and> strip s = []"
  then show "\<not> emitted e" by (simp add: emitted_def entry_link_text_def)
next
  assume n: "entry_title e = None"
  then show "entry_title_text e = ascii ''No Title''"
    by (simp add: entry_title_text_def strip_No_Title)
  from n show "emitted e = (entry_link_text e \<noteq> [])"
    by (simp add: emitted_def entry_title_text_def strip_No_Title) (simp add: ascii_def)
qed

text \<open>
  A feed whose only entry has a link and no title field yields an article, titled
  \<open>No Title\<close>.
\<close>

theorem collect_from_feed_untitled_counterexample:
  "entry_title untitled_entry = None
   \<and> collect_from_feed (feed_of [untitled_entry]) sample_feed
       = [\<lparr>title = ascii ''No Title'', link = ascii ''http://x'', published = isoformat sample_now,
           source = ascii ''S'', summary = [], keywords_json = ascii ''[]''\<rparr>]
   \<and> collect_from_feed (feed_of [untitled_entry]) sample_feed \<noteq> []"
  by (simp add: untitled_entry_def collect_from_feed_def collect_from_feed_try_def feed_of_def
      sample_feed_def strip_def is_space_def ascii_def Let_def)

lemma sample_emitted:
  "filter emitted [sample_entry ''  '' ''http://a'', unlinked_entry, sample_entry ''T'' '' '',
                   untitled_entry, sample_entry '' T '' '' http://b '']
     = [untitled_entry, sample_entry '' T '' '' http://b '']"
  by (simp add: emitted_def entry_title_text_def entry_link_text_def sample_entry_def
      unlinked_entry_def untitled_entry_def strip_def is_space_def ascii_def)

lemma sample_texts:
  "entry_title_text untitled_entry = ascii ''No Title''"
  "entry_link_text untitled_entry = ascii ''http://x''"
  "entry_title_text (sample_entry '' T '' '' http://b '') = ascii ''T''"
  "entry_link_text (sample_entry '' T '' '' http://b '') = ascii ''http://b''"
  by (simp_all add: entry_title_text_def entry_link_text_def sample_entry_def
      untitled_entry_def strip_def is_space_def ascii_def)

theorem collect_from_feed_excludes_blank_entries_witness:
  "feedparser_parse
     (feed_of [sample_entry ''  '' ''http://a'', unlinked_entry, sample_entry ''T'' '' '',
               untitled_entry, sample_entry '' T '' '' http://b ''])
     (feed_url sample_feed)
     = Inr [sample_entry ''  '' ''http://a'', unlinked_entry, sample_entry ''T'' '' '',
            untitled_entry, sample_entry '' T '' '' http://b '']
   \<and> map (\<lambda>a. (title a, link a))
        (collect_from_feed
           (feed_of [sample_entry ''  '' ''http://a'', unlinked_entry, sample_entry ''T'' '' '',
                     untitled_entry, sample_entry '' T '' '' http://b ''])
           sample_feed)
       = [(ascii ''No Title'', ascii ''http://x''), (ascii ''T'', ascii ''http://b'')]
   \<and> entry_link unlinked_entry = None \<and> \<not> emitted unlinked_entry
   \<and> entry_title untitled_entry = None \<and> emitted untitled_entry"
proof -
  let ?es = "[sample_entry ''  '' ''http://a'', unlinked_entry, sample_entry ''T'' '' '',
              untitled_entry, sample_entry '' T '' '' http://b '']"
  have p: "feedparser_parse (feed_of ?es) (feed_url sample_feed) = Inr ?es"
    by (simp add: feed_of_def)
  have l: "entry_link unlinked_entry = None" by (simp add: unlinked_entry_def)
  have t: "entry_title untitled_entry = None" by (simp add: untitled_entry_def)
  have x: "entry_link_text untitled_entry \<noteq> []" by (simp add: sample_texts ascii_def)
  from collect_from_feed_excludes_blank_entries [of "feed_of ?es" sample_feed ?es untitled_entry] p
  have m0: "map (\<lambda>a. (title a, link a)) (collect_from_feed (feed_of ?es) sample_feed)
       = map (\<lambda>e. (entry_title_text e, entry_link_text e)) (filter emitted (take 15 ?es))"
    by blast
  have tk: "take 15 ?es = ?es" by simp
  have m: "map (\<lambda>a. (title a, link a)) (collect_from_feed (feed_of ?es) sample_feed)
       = [(ascii ''No Title'', ascii ''http://x''), (ascii ''T'', ascii ''http://b'')]"
    by (simp only: m0 tk sample_emitted) (simp add: sample_texts)
  from collect_from_feed_excludes_blank_entries [of "feed_of ?es" sample_feed ?es unlinked_entry] l
  have u: "\<not> emitted unlinked_entry" by blast
  from collect_from_feed_excludes_blank_entries [of "feed_of ?es" sample_feed ?es untitled_entry] t x
  have v: "emitted untitled_entry" by blast
  show ?thesis by (intro conjI p m l u t v)
qed

section \<open>Properties of the deduplication in collect_all_news\<close>

lemma set_update_cases:
  "(k, v) \<in> set (AList.update k' v' al) \<Longrightarrow> (k, v) = (k', v') \<or> (k, v) \<in> set al"
  by (induction al) (auto split: if_splits)

lemma link_dict_foldl_inv:
  assumes "distinct (map fst d0)" "\<forall>(k, v) \<in> set d0. link v = k"
  shows "distinct (map fst (foldl (\<lambda>d a. AList.update (link a) a d) d0 xs))
       \<and> (\<forall>(k, v) \<in> set (foldl (\<lambda>d a. AList.update (link a) a d) d0 xs). link v = k)
       \<and> (\<forall>k. map_of (foldl (\<lambda>d a. AList.update (link a) a d) d0 xs) k =
              (if filter (\<lambda>b. link b = k) xs = [] then map_of d0 k
               else Some (last (filter (\<lambda>b. link b = k) xs))))"
  using assms
proof (induction xs arbitrary: d0)
  case Nil then show ?case by simp
next
  case (Cons a xs)
  let ?d1 = "AList.update (link a) a d0"
  have d1: "distinct (map fst ?d1)" using Cons.prems(1) by (simp add: distinct_update)
  have d2: "\<forall>(k, v) \<in> set ?d1. link v = k"
  proof (clarify)
    fix k v assume "(k, v) \<in> set ?d1"
    then have "(k, v) \<in> insert (link a, a) (set d0)"
      by (auto dest: set_update_cases)
    then show "link v = k" using Cons.prems(2) by auto
  qed
  from Cons.IH [OF d1 d2] show ?case
    by (auto simp: update_conv')
qed

lemma link_dict_inv:
  "distinct (map fst (link_dict xs))
   \<and> (\<forall>(k, v) \<in> set (link_dict xs). link v = k)
   \<and> (\<forall>k. map_of (link_dict xs) k =
          (if filter (\<lambda>b. link b = k) xs = [] then None
           else Some (last (filter (\<lambda>b. link b = k) xs))))"
  using link_dict_foldl_inv [of "[]" xs] by (simp add: link_dict_def)

lemma filter_key_single:
  "distinct (map fst d) \<Longrightarrow> map_of d k = Some v \<Longrightarrow> filter (\<lambda>p. fst p = k) d = [(k, v)]"
proof (induction d)
  case Nil then show ?case by simp
next
  case (Cons p d)
  show ?case
  proof (cases "fst p = k")
    case True
    with Cons.prems have pv: "p = (k, v)" by (cases p) simp
    have "k \<notin> fst ` set d" using Cons.prems(1) True by auto
    then have "filter (\<lambda>p. fst p = k) d = []" by (auto simp: filter_empty_conv)
    with pv show ?thesis by simp
  next
    case False
    with Cons show ?thesis by (cases p) auto
  qed
qed

lemma map_link_link_dict: "map link (unique_articles xs) = map fst (link_dict xs)"
  using link_dict_inv [of xs] by (auto simp: unique_articles_def)

lemma filter_unique_articles:
  "filter (\<lambda>a. link a = k) (unique_articles xs) = map snd (filter (\<lambda>p. fst p = k) (link_dict xs))"
proof -
  have "filter (\<lambda>p. link (snd p) = k) (link_dict xs) = filter (\<lambda>p. fst p = k) (link_dict xs)"
    using link_dict_inv [of xs] by (intro filter_cong refl) auto
  then show ?thesis
    by (simp add: unique_articles_def filter_map o_def)
qed

text \<open>
  C5. For every list of collected articles, the deduplicated list has one article per link of
  the input and no other link, and the article kept for a link is the last one with that
  link in the flattened input.
\<close>

theorem unique_articles_one_per_link_last_wins:
  "distinct (map link (unique_articles all_articles))
   \<and> set (map link (unique_articles all_articles)) = set (map link all_articles)
   \<and> (\<forall>b \<in> set all_articles.
        filter (\<lambda>a. link a = link b) (unique_articles all_articles)
          = [last (filter (\<lambda>c. link c = link b) all_articles)])"
proof (intro conjI ballI)
  show "distinct (map link (unique_articles all_articles))"
    using link_dict_inv [of all_articles] by (simp add: map_link_link_dict)
next
  have "set (map fst (link_dict all_articles)) = dom (map_of (link_dict all_articles))"
    by (simp add: dom_map_of_conv_image_fst)
  also have "\<dots> = {k. filter (\<lambda>b. link b = k) all_articles \<noteq> []}"
    using link_dict_inv [of all_articles] by (auto simp: dom_def)
  also have "\<dots> = set (map link all_articles)"
    by (auto simp: filter_empty_conv)
  finally show "set (map link (unique_articles all_articles)) = set (map link all_articles)"
    by (simp add: map_link_link_dict)
next
  fix b assume b: "b \<in> set all_articles"
  then have ne: "filter (\<lambda>c. link c = link b) all_articles \<noteq> []"
    by (auto simp: filter_empty_conv)
  then have "map_of (link_dict all_articles) (link b)
               = Some (last (filter (\<lambda>c. link c = link b) all_articles))"
    using link_dict_inv [of all_articles] by simp
  then have "filter (\<lambda>p. fst p = link b) (link_dict all_articles)
               = [(link b, last (filter (\<lambda>c. link c = link b) all_articles))]"
    using link_dict_inv [of all_articles] by (simp add: filter_key_single)
  then show "filter (\<lambda>a. link a = link b) (unique_articles all_articles)
               = [last (filter (\<lambda>c. link c = link b) all_articles)]"
    by (simp add: filter_unique_articles)
qed


lemma sample_dedupe:
  "unique_articles [sample_article ''u'' ''A'', sample_article ''v'' ''B'', sample_article ''u'' ''C'']
     = [sample_article ''u'' ''C'', sample_article ''v'' ''B'']"
  by (simp add: unique_articles_def link_dict_def sample_article_def ascii_def)

theorem unique_articles_one_per_link_last_wins_witness:
  "sample_article ''u'' ''A'' \<in> set [sample_article ''u'' ''A'', sample_article ''v'' ''B'', sample_article ''u'' ''C'']
   \<and> filter (\<lambda>a. link a = link (sample_article ''u'' ''A''))
        (unique_articles [sample_article ''u'' ''A'', sample_article ''v'' ''B'', sample_article ''u'' ''C''])
     = [sample_article ''u'' ''C'']
   \<and> unique_articles [sample_article ''u'' ''A'', sample_article ''v'' ''B'', sample_article ''u'' ''C'']
     = [sample_article ''u'' ''C'', sample_article ''v'' ''B'']"
proof -
  let ?xs = "[sample_article ''u'' ''A'', sample_article ''v'' ''B'', sample_article ''u'' ''C'']"
  have m: "sample_article ''u'' ''A'' \<in> set ?xs" by simp
  have l: "last (filter (\<lambda>c. link c = link (sample_article ''u'' ''A'')) ?xs) = sample_article ''u'' ''C''"
    by (simp add: sample_article_def ascii_def)
  from unique_articles_one_per_link_last_wins [of ?xs] m
  have "filter (\<lambda>a. link a = link (sample_article ''u'' ''A'')) (unique_articles ?xs)
          = [last (filter (\<lambda>c. link c = link (sample_article ''u'' ''A'')) ?xs)]"
    by blast
  with l m sample_dedupe show ?thesis by simp
qed

section \<open>Properties of collect_all_news\<close>





lemma unique_articles_Nil: "unique_articles [] = []"
  by (simp add: unique_articles_def link_dict_def)

lemma all_empty_concat:
  "\<forall>f \<in> set fs. g f = [] \<Longrightarrow> concat (map g fs) = []"
  by (induction fs) auto

lemma collect_selected_status:
  "status (fst (collect_selected worlds as_completed ins db feeds)) = ''success''"
  by (simp add: collect_selected_def Let_def split: prod.splits)

lemma collect_selected_failed_feeds:
  "stats (fst (collect_selected worlds as_completed ins db feeds)) ''failed_feeds''
     = Some (Names [])"
  by (simp add: collect_selected_def Let_def initial_stats_def stats_dict_def map_add_def
      split: prod.splits)

lemma collect_from_feed_raises:
  "feedparser_parse w (feed_url f) = Inl e \<Longrightarrow> collect_from_feed w f = []"
  by (simp add: collect_from_feed_def collect_from_feed_try_def)

lemma collect_selected_nothing:
  assumes "set (as_completed feeds) \<subseteq> set feeds"
    and "\<forall>f \<in> set feeds. collect_from_feed (worlds f) f = []"
  shows "collect_selected worlds as_completed ins db feeds
           = (\<lparr>status = ''success'', stats = initial_stats\<rparr>, db)"
proof -
  from assms have "\<forall>f \<in> set (as_completed feeds). collect_from_feed (worlds f) f = []"
    by blast
  then have c: "concat (map (\<lambda>f. collect_from_feed (worlds f) f) (as_completed feeds)) = []"
    by (rule all_empty_concat)
  show ?thesis
    unfolding collect_selected_def Let_def c unique_articles_Nil by simp
qed

text \<open>
  C1. For every list of feeds, every behaviour of the fetch tasks and of the persistence
  call, the run returns a summary with status \<open>success\<close>, and its \<open>failed_feeds\<close> is the
  empty list: nothing writes it. A feed whose parser raises yields no article. When no
  feed yields an article, nothing is saved: the store is unchanged and the stats are the
  initial ones, in which \<open>total_inserted\<close> is 0 and there is no key \<open>inserted\<close>, which the
  endpoint reports as 0.
\<close>

theorem collect_all_news_always_returns:
  "collect_all_news worlds as_completed ins db max_feeds
     = collect_selected worlds as_completed ins db (feeds_to_process max_feeds)
   \<and> status (fst (collect_selected worlds as_completed ins db feeds)) = ''success''
   \<and> stats (fst (collect_selected worlds as_completed ins db feeds)) ''failed_feeds''
       = Some (Names [])
   \<and> (feedparser_parse w (feed_url f) = Inl e \<longrightarrow> collect_from_feed w f = [])
   \<and> (set (as_completed feeds) \<subseteq> set feeds
        \<and> (\<forall>f \<in> set feeds. collect_from_feed (worlds f) f = [])
      \<longrightarrow> collect_selected worlds as_completed ins db feeds
            = (\<lparr>status = ''success'', stats = initial_stats\<rparr>, db)
          \<and> reported_inserted (fst (collect_selected worlds as_completed ins db feeds)) = Count 0
          \<and> stats (fst (collect_selected worlds as_completed ins db feeds)) ''inserted'' = None
          \<and> stats (fst (collect_selected worlds as_completed ins db feeds)) ''total_inserted''
              = Some (Count 0))"
proof (intro conjI impI)
  show "collect_all_news worlds as_completed ins db max_feeds
     = collect_selected worlds as_completed ins db (feeds_to_process max_feeds)"
    by (simp add: collect_all_news_def)
  show "status (fst (collect_selected worlds as_completed ins db feeds)) = ''success''"
    by (rule collect_selected_status)
  show "stats (fst (collect_selected worlds as_completed ins db feeds)) ''failed_feeds''
       = Some (Names [])"
    by (rule collect_selected_failed_feeds)
next
  assume "feedparser_parse w (feed_url f) = Inl e"
  then show "collect_from_feed w f = []" by (rule collect_from_feed_raises)
next
  assume h: "set (as_completed feeds) \<subseteq> set feeds
        \<and> (\<forall>f \<in> set feeds. collect_from_feed (worlds f) f = [])"
  then have r: "collect_selected worlds as_completed ins db feeds
            = (\<lparr>status = ''success'', stats = initial_stats\<rparr>, db)"
    by (intro collect_selected_nothing) blast+
  show "collect_selected worlds as_completed ins db feeds
            = (\<lparr>status = ''success'', stats = initial_stats\<rparr>, db)" by (rule r)
  show "reported_inserted (fst (collect_selected worlds as_completed ins db feeds)) = Count 0"
    by (simp add: r reported_inserted_def initial_stats_def)
  show "stats (fst (collect_selected worlds as_completed ins db feeds)) ''inserted'' = None"
    by (simp add: r initial_stats_def)
  show "stats (fst (collect_selected worlds as_completed ins db feeds)) ''total_inserted''
              = Some (Count 0)"
    by (simp add: r initial_stats_def)
qed

text \<open>
  In a run in which every feed fails, \<open>failed_feeds\<close> is empty and not the list of the
  names of the processed feeds.
\<close>

theorem collect_all_news_failed_feeds_counterexample:
  "stats (fst (collect_all_news all_failing rev sample_insert [] None)) ''failed_feeds''
     = Some (Names [])
   \<and> stats (fst (collect_all_news all_failing rev sample_insert [] None)) ''failed_feeds''
     \<noteq> Some (Names (source_names (feeds_to_process None)))"
  by (simp add: collect_all_news_def collect_selected_def Let_def all_failing_def
      failing_world_def collect_from_feed_def collect_from_feed_try_def unique_articles_Nil
      initial_stats_def feeds_to_process_def FEEDS_def source_names_def)

theorem collect_all_news_always_returns_witness:
  "set (rev FEEDS) \<subseteq> set FEEDS
   \<and> feedparser_parse (all_failing (hd FEEDS)) (feed_url (hd FEEDS)) = Inl FeedError
   \<and> collect_from_feed (all_failing (hd FEEDS)) (hd FEEDS) = []
   \<and> collect_all_news all_failing rev sample_insert [ascii ''x''] None
       = (\<lparr>status = ''success'', stats = initial_stats\<rparr>, [ascii ''x''])
   \<and> reported_inserted (fst (collect_all_news all_failing rev sample_insert [ascii ''x''] None))
       = Count 0"
proof -
  have p: "feedparser_parse (all_failing f) (feed_url f) = Inl FeedError" for f
    by (simp add: all_failing_def failing_world_def)
  have e: "collect_from_feed (all_failing f) f = []" for f
    using collect_all_news_always_returns
      [of all_failing rev sample_insert "[ascii ''x'']" None FEEDS "all_failing f" f FeedError] p
    by blast
  have s: "set (rev FEEDS) \<subseteq> set FEEDS" by simp
  have n: "feeds_to_process None = FEEDS" by (simp add: feeds_to_process_def)
  from collect_all_news_always_returns
      [of all_failing rev sample_insert "[ascii ''x'']" None FEEDS "all_failing (hd FEEDS)"
          "hd FEEDS" FeedError] s e
  have r: "collect_all_news all_failing rev sample_insert [ascii ''x''] None
       = (\<lparr>status = ''success'', stats = initial_stats\<rparr>, [ascii ''x''])"
    by (simp add: n)
  have i: "reported_inserted (fst (collect_all_news all_failing rev sample_insert [ascii ''x''] None))
       = Count 0"
    by (simp add: r reported_inserted_def initial_stats_def)
  show ?thesis by (intro conjI s p e r i)
qed

section \<open>Properties of the keyword extractor\<close>

lemma extract_simple_keywords_filtered:
  "length (extract_simple_keywords lower doc) \<le> 8
   \<and> (\<forall>k \<in> set (extract_simple_keywords lower doc). keep_keyword lower k)"
  by (auto simp: extract_simple_keywords_def Let_def dest: in_set_takeD)

lemma extract_keywords_try_filtered:
  "extract_keywords_try lower chat key doc = Inr ks \<Longrightarrow>
   length ks \<le> 8 \<and> (\<forall>k \<in> set ks. keep_keyword lower k)"
  by (auto simp: extract_keywords_try_def Let_def split: sum.splits dest: in_set_takeD)

lemma extract_keywords_filtered:
  "length (extract_keywords lower key chat doc) \<le> 8
   \<and> (\<forall>k \<in> set (extract_keywords lower key chat doc). keep_keyword lower k)"
proof (cases "\<exists>k ks. key = Some k \<and> doc \<noteq> [] \<and> k \<noteq> []
                 \<and> extract_keywords_try lower chat k doc = Inr ks")
  case True
  then obtain k ks where k: "key = Some k" "doc \<noteq> []" "k \<noteq> []"
    and t: "extract_keywords_try lower chat k doc = Inr ks" by blast
  from k t have "extract_keywords lower key chat doc = ks"
    by (simp add: extract_keywords_def)
  with extract_keywords_try_filtered [OF t] show ?thesis by simp
next
  case False
  then have "extract_keywords lower key chat doc = []
             \<or> extract_keywords lower key chat doc = extract_simple_keywords lower doc"
    by (auto simp: extract_keywords_def split: option.splits sum.splits)
  with extract_simple_keywords_filtered [of "lower" "doc"] show ?thesis by auto
qed

text \<open>
  C6. For every case mapping, key, behaviour of the remote service and input text, the list
  that \<open>extract_keywords\<close> returns, and the list that \<open>extract_simple_keywords\<close> returns,
  has at most 8 entries, and each entry is longer than one character and is not, once
  lowered, one of the stop words.
\<close>

theorem extract_keywords_bounded_and_filtered:
  "length (extract_keywords lower key chat doc) \<le> 8
   \<and> (\<forall>k \<in> set (extract_keywords lower key chat doc).
         1 < length k \<and> lower k \<notin> set (STOP_WORDS lower))
   \<and> length (extract_simple_keywords lower doc) \<le> 8
   \<and> (\<forall>k \<in> set (extract_simple_keywords lower doc).
         1 < length k \<and> lower k \<notin> set (STOP_WORDS lower))"
  using extract_keywords_filtered [of "lower" "key" "chat" "doc"]
        extract_simple_keywords_filtered [of "lower" "doc"]
  by (simp add: keep_keyword_def)

text \<open>
  C2. When the key is unset, and also when it is empty or the text is empty,
  \<open>extract_keywords\<close> returns the empty list, whatever the text and the remote service.
  With a key and a text that are not empty, a remote call that raises makes it return what
  \<open>extract_simple_keywords\<close> returns for the text.
\<close>

theorem extract_keywords_unset_key:
  "extract_keywords lower None chat doc = []
   \<and> extract_keywords lower (Some []) chat doc = []
   \<and> extract_keywords lower key chat [] = []
   \<and> (doc \<noteq> [] \<and> k \<noteq> [] \<and> chat k (take 1000 doc) = Inl e \<longrightarrow>
        extract_keywords lower (Some k) chat doc = extract_simple_keywords lower doc)"
  by (simp add: extract_keywords_def extract_keywords_try_def split: option.splits)

lemma STOP_WORDS_ascii_lower: "STOP_WORDS ascii_lower = STOP_WORDS_literals"
  by (simp add: STOP_WORDS_def STOP_WORDS_literals_def ascii_lower_def ascii_def codepoints_def)

lemma sample_keep:
  "keep_keyword ascii_lower (ascii ''AI'')"
  "\<not> keep_keyword ascii_lower (ascii ''the'')"
  "\<not> keep_keyword ascii_lower (ascii ''x'')"
  "keep_keyword ascii_lower (ascii ''Cloud'')"
  "\<not> keep_keyword ascii_lower (ascii ''IT'')"
  "\<not> keep_keyword ascii_lower (ascii ''News'')"
  "keep_keyword ascii_lower (ascii ''a1'')"
  "keep_keyword ascii_lower (ascii ''b2'')"
  "keep_keyword ascii_lower (ascii ''c3'')"
  "keep_keyword ascii_lower (ascii ''d4'')"
  "keep_keyword ascii_lower (ascii ''e5'')"
  "keep_keyword ascii_lower (ascii ''f6'')"
  "keep_keyword ascii_lower (ascii ''g7'')"
  by (simp_all add: keep_keyword_def STOP_WORDS_ascii_lower)
     (simp_all add: STOP_WORDS_literals_def ascii_lower_def ascii_def codepoints_def)

lemma sample_found:
  "filter (\<lambda>tech_term. contains (ascii_lower tech_term) (ascii_lower (ascii ''an AI'')))
     tech_terms = [ascii ''AI'']"
  by (simp add: tech_terms_def ascii_lower_def ascii_def codepoints_def)

lemma sample_simple: "extract_simple_keywords ascii_lower (ascii ''an AI'') = [ascii ''AI'']"
  unfolding extract_simple_keywords_def Let_def sample_found
  by (simp add: sample_keep)

lemma sample_raw:
  "filter (\<lambda>k. k \<noteq> [])
     (map strip (split_on 44
        (strip (ascii '' AI, the, x, Cloud ,, IT, News, a1, b2, c3, d4, e5, f6, g7 ''))))
   = [ascii ''AI'', ascii ''the'', ascii ''x'', ascii ''Cloud'', ascii ''IT'', ascii ''News'',
      ascii ''a1'', ascii ''b2'', ascii ''c3'', ascii ''d4'', ascii ''e5'', ascii ''f6'',
      ascii ''g7'']"
  by (simp add: strip_def is_space_def ascii_def)

lemma sample_remote_try:
  "extract_keywords_try ascii_lower sample_chat (ascii ''k'') (ascii ''an AI'')
     = Inr [ascii ''AI'', ascii ''Cloud'', ascii ''a1'', ascii ''b2'', ascii ''c3'',
            ascii ''d4'', ascii ''e5'', ascii ''f6'']"
  unfolding extract_keywords_try_def sample_chat_def Let_def sum.case sample_raw
  by (simp add: sample_keep)

lemma sample_remote:
  "extract_keywords ascii_lower (Some (ascii ''k'')) sample_chat (ascii ''an AI'')
     = [ascii ''AI'', ascii ''Cloud'', ascii ''a1'', ascii ''b2'', ascii ''c3'', ascii ''d4'',
        ascii ''e5'', ascii ''f6'']"
proof -
  have "ascii ''k'' \<noteq> []" "ascii ''an AI'' \<noteq> []" by (simp_all add: ascii_def)
  then show ?thesis
    by (simp add: extract_keywords_def sample_remote_try)
qed

theorem extract_keywords_bounded_and_filtered_witness:
  "ascii ''AI'' \<in> set (extract_keywords ascii_lower (Some (ascii ''k'')) sample_chat (ascii ''an AI''))
   \<and> extract_keywords ascii_lower (Some (ascii ''k'')) sample_chat (ascii ''an AI'')
       = [ascii ''AI'', ascii ''Cloud'', ascii ''a1'', ascii ''b2'', ascii ''c3'', ascii ''d4'',
          ascii ''e5'', ascii ''f6'']
   \<and> 1 < length (ascii ''AI'')
   \<and> ascii_lower (ascii ''AI'') \<notin> set (STOP_WORDS ascii_lower)
   \<and> ascii ''AI'' \<in> set (extract_simple_keywords ascii_lower (ascii ''an AI''))
   \<and> extract_simple_keywords ascii_lower (ascii ''an AI'') = [ascii ''AI'']"
proof -
  have m: "ascii ''AI'' \<in> set (extract_keywords ascii_lower (Some (ascii ''k'')) sample_chat
                                 (ascii ''an AI''))"
    by (simp add: sample_remote)
  have n: "ascii ''AI'' \<in> set (extract_simple_keywords ascii_lower (ascii ''an AI''))"
    by (simp add: sample_simple)
  from extract_keywords_bounded_and_filtered
         [of ascii_lower "Some (ascii ''k'')" sample_chat "ascii ''an AI''"] m
  have c: "1 < length (ascii ''AI'') \<and> ascii_lower (ascii ''AI'') \<notin> set (STOP_WORDS ascii_lower)"
    by blast
  from c have c1: "1 < length (ascii ''AI'')" by (rule conjunct1)
  from c have c2: "ascii_lower (ascii ''AI'') \<notin> set (STOP_WORDS ascii_lower)" by (rule conjunct2)
  show ?thesis by (intro conjI m sample_remote c1 c2 n sample_simple)
qed

text \<open>
  With the key unset and a text that names a term of the vocabulary, \<open>extract_keywords\<close>
  returns the empty list and not the term that the rule-based extractor finds.
\<close>

theorem extract_keywords_unset_key_counterexample:
  "extract_keywords ascii_lower None failing_chat (ascii ''an AI'') = []
   \<and> extract_simple_keywords ascii_lower (ascii ''an AI'') = [ascii ''AI'']
   \<and> extract_keywords ascii_lower None failing_chat (ascii ''an AI'')
       \<noteq> extract_simple_keywords ascii_lower (ascii ''an AI'')"
  by (simp add: sample_simple) (simp add: extract_keywords_def)

theorem extract_keywords_unset_key_witness:
  "ascii ''an AI'' \<noteq> [] \<and> ascii ''k'' \<noteq> []
   \<and> failing_chat (ascii ''k'') (take 1000 (ascii ''an AI'')) = Inl KeywordServiceError
   \<and> extract_keywords ascii_lower (Some (ascii ''k'')) failing_chat (ascii ''an AI'')
       = [ascii ''AI'']"
proof -
  have a: "ascii ''an AI'' \<noteq> []" and b: "ascii ''k'' \<noteq> []" by (simp_all add: ascii_def)
  have c: "failing_chat (ascii ''k'') (take 1000 (ascii ''an AI'')) = Inl KeywordServiceError"
    by (simp add: failing_chat_def)
  from extract_keywords_unset_key
         [of ascii_lower failing_chat "ascii ''an AI''" None "ascii ''k''" KeywordServiceError]
       a b c
  have "extract_keywords ascii_lower (Some (ascii ''k'')) failing_chat (ascii ''an AI'')
          = extract_simple_keywords ascii_lower (ascii ''an AI'')"
    by blast
  then have d: "extract_keywords ascii_lower (Some (ascii ''k'')) failing_chat (ascii ''an AI'')
          = [ascii ''AI'']"
    by (simp only: sample_simple)
  show ?thesis by (intro conjI a b c d)
qed

end
